theory Spec2Isabelle
  imports Complex_Main
begin

section \<open>TunnelHub: request admission, sessions and the credential channel\<close>

text \<open>
  A shallow embedding of \<^verbatim>\<open>main.py\<close> and \<^verbatim>\<open>security.py\<close>.

  Conventions of the embedding.
  \<^item> Python \<^verbatim>\<open>str\<close> and \<^verbatim>\<open>bytes\<close> are \<open>string\<close>; a Python \<^verbatim>\<open>int\<close> is \<open>int\<close>.
  \<^item> A Python \<^verbatim>\<open>float\<close> is a \<open>real\<close>, and every floating-point operation is the
    exact operation followed by a rounding \<open>fl :: real \<Rightarrow> real\<close>, which the functions of
    the token bucket take as their first argument. Rounding to the nearest double is
    one such \<open>fl\<close>, the identity (exact arithmetic) another. Overflow to infinity is
    not modelled.
  \<^item> Module globals (\<^verbatim>\<open>sessions\<close>, \<^verbatim>\<open>dos_protection._store\<close>, the in-memory key
    slots) are passed in and returned explicitly.
  \<^item> A raised exception is a value: a function that can raise returns a sum whose
    \<open>Inl\<close> carries the exception.
  \<^item> What the process reads from outside (the clock, the random source, the file
    system's answer to a write, builtins and third-party library functions) is an
    argument of the function that reads it.
  \<^item> Left out: what is printed, and the \<^verbatim>\<open>asyncio\<close> lock of the middleware (one call
    of the middleware is one step on the store).
\<close>

subsection \<open>Exceptions\<close>

text \<open>
  The exceptions that matter are told apart by class only where the source does so;
  \<open>OtherError\<close> stands for any exception raised inside a library call, with its text.
\<close>

datatype py_exception =
    ZeroDivisionError string
  | KeyError string
  | FileNotFoundError string
  | ValueError string
  | TypeError string
  | OtherError string

text \<open>\<^verbatim>\<open>str(e)\<close>. (\<^verbatim>\<open>str\<close> of a \<^verbatim>\<open>KeyError\<close> is the \<^verbatim>\<open>repr\<close> of the key; the
  constructor here carries that text already.)\<close>

fun str_exc :: "py_exception \<Rightarrow> string" where
  "str_exc (ZeroDivisionError m) = m"
| "str_exc (KeyError m) = m"
| "str_exc (FileNotFoundError m) = m"
| "str_exc (ValueError m) = m"
| "str_exc (TypeError m) = m"
| "str_exc (OtherError m) = m"

text \<open>Truthiness of an optional string: \<^verbatim>\<open>None\<close> and \<^verbatim>\<open>""\<close> are false.\<close>

fun truthy :: "string option \<Rightarrow> bool" where
  "truthy None = False"
| "truthy (Some s) = (s \<noteq> [])"

subsection \<open>Configuration and requests (\<^verbatim>\<open>main.py\<close>)\<close>

text \<open>
  \<^verbatim>\<open>RATE_LIMIT_RPM\<close>, \<^verbatim>\<open>MAX_REQUEST_SIZE\<close> and \<^verbatim>\<open>ADMIN_PASSWORD\<close> are read from the
  environment at import time; any integer may be configured.
\<close>

record config =
  RATE_LIMIT_RPM :: int
  MAX_REQUEST_SIZE :: int
  ADMIN_PASSWORD :: string

text \<open>
  What the middleware and the handlers read of a request: \<^verbatim>\<open>request.url.path\<close>,
  \<^verbatim>\<open>request.client.host\<close> (\<open>None\<close> when \<^verbatim>\<open>request.client\<close> is \<^verbatim>\<open>None\<close>), and the two
  headers \<^verbatim>\<open>content-length\<close> and \<^verbatim>\<open>Authorization\<close> (\<open>None\<close> when the header is
  absent, as \<^verbatim>\<open>headers.get\<close> returns).
\<close>

record request =
  path :: string
  client_host :: "string option"
  content_length :: "string option"
  authorization :: "string option"

subsection \<open>The rate limiter: \<^verbatim>\<open>dos_protection\<close>\<close>

text \<open>One bucket: \<^verbatim>\<open>{"tokens": ..., "last": ...}\<close>; \<open>last_time\<close> is the key \<^verbatim>\<open>"last"\<close>.\<close>

record entry =
  tokens :: real
  last_time :: real

type_synonym store = "string \<rightharpoonup> entry"

text \<open>What the middleware does with the request.\<close>

datatype outcome =
    CallNext
  | TooManyRequests int
  | RequestEntityTooLarge
  | Unhandled py_exception

text \<open>The literal list of line 101.\<close>

definition public_endpoints :: "string list" where
  "public_endpoints = [''/'', ''/api/public-key'', ''/favicon.ico'', ''/docs'', ''/openapi.json'']"

text \<open>\<^verbatim>\<open>client = request.client.host if request.client else "unknown"\<close>\<close>

definition client_of :: "request \<Rightarrow> string" where
  "client_of r = (case client_host r of Some h \<Rightarrow> h | None \<Rightarrow> ''unknown'')"

text \<open>\<^verbatim>\<open>float(RATE_LIMIT_RPM)\<close>\<close>

definition capacity :: "(real \<Rightarrow> real) \<Rightarrow> config \<Rightarrow> real" where
  "capacity fl cfg = fl (real_of_int (RATE_LIMIT_RPM cfg))"

text \<open>\<^verbatim>\<open>refill_per_sec = RATE_LIMIT_RPM / 60.0\<close>: the integer is converted, then divided.\<close>

definition refill_per_sec :: "(real \<Rightarrow> real) \<Rightarrow> config \<Rightarrow> real" where
  "refill_per_sec fl cfg = fl (capacity fl cfg / 60)"

text \<open>
  Lines 115--118: the client's bucket, created full when the store has none.
\<close>

definition get_entry :: "(real \<Rightarrow> real) \<Rightarrow> config \<Rightarrow> store \<Rightarrow> string \<Rightarrow> real \<Rightarrow> entry" where
  "get_entry fl cfg st client now =
     (case st client of
        Some e \<Rightarrow> e
      | None \<Rightarrow> \<lparr>tokens = capacity fl cfg, last_time = now\<rparr>)"

text \<open>Lines 121--124: the refill, only when the clock has advanced.\<close>

definition refill :: "(real \<Rightarrow> real) \<Rightarrow> config \<Rightarrow> real \<Rightarrow> entry \<Rightarrow> entry" where
  "refill fl cfg now e =
     (let elapsed = fl (now - last_time e) in
      if elapsed > 0
      then \<lparr>tokens = min (capacity fl cfg)
                        (fl (tokens e + fl (elapsed * refill_per_sec fl cfg))),
            last_time = now\<rparr>
      else e)"

text \<open>The bucket that line 126 tests: created if need be, then refilled.\<close>

definition refilled :: "(real \<Rightarrow> real) \<Rightarrow> config \<Rightarrow> store \<Rightarrow> string \<Rightarrow> real \<Rightarrow> entry" where
  "refilled fl cfg st client now = refill fl cfg now (get_entry fl cfg st client now)"

text \<open>
  \<^verbatim>\<open>int(x)\<close> of a float truncates towards zero.
\<close>

definition int_of_float :: "real \<Rightarrow> int" where
  "int_of_float x = (if x \<ge> 0 then \<lfloor>x\<rfloor> else \<lceil>x\<rceil>)"

text \<open>
  Line 127: \<^verbatim>\<open>int(max(1, (1.0 - entry["tokens"]) / refill_per_sec))\<close>. Python's \<^verbatim>\<open>max(1, q)\<close>
  is \<^verbatim>\<open>q\<close> when \<^verbatim>\<open>q > 1\<close> and the integer \<^verbatim>\<open>1\<close> otherwise; a float division by
  \<^verbatim>\<open>0.0\<close> raises.
\<close>

definition retry_after :: "(real \<Rightarrow> real) \<Rightarrow> real \<Rightarrow> real \<Rightarrow> py_exception + int" where
  "retry_after fl tok rps =
     (if rps = 0 then Inl (ZeroDivisionError ''float division by zero'')
      else let q = fl (fl (1 - tok) / rps) in
           Inr (if q > 1 then int_of_float q else 1))"

text \<open>
  Lines 137--146: the size check. \<open>int_of_str\<close> is the builtin \<^verbatim>\<open>int\<close> on a string, with
  \<open>None\<close> for \<^verbatim>\<open>ValueError\<close>. The result is \<open>True\<close> when the 413 response is returned.
\<close>

definition too_large :: "(string \<Rightarrow> int option) \<Rightarrow> config \<Rightarrow> request \<Rightarrow> bool" where
  "too_large int_of_str cfg r =
     (case content_length r of
        None \<Rightarrow> False
      | Some s \<Rightarrow>
          if s = [] then False
          else (case int_of_str s of
                  None \<Rightarrow> False
                | Some n \<Rightarrow> n > MAX_REQUEST_SIZE cfg))"

text \<open>
  The middleware. \<open>now\<close> is the reading of \<^verbatim>\<open>time.time()\<close>. The bucket is a dictionary
  that sits in the store and is updated in place, so its refill persists also when the
  request is then refused or the retry computation raises.
\<close>

definition dos_protection ::
  "(real \<Rightarrow> real) \<Rightarrow> (string \<Rightarrow> int option) \<Rightarrow> config \<Rightarrow> store \<Rightarrow> request \<Rightarrow> real
     \<Rightarrow> store \<times> outcome" where
  "dos_protection fl int_of_str cfg st r now =
     (if path r \<in> set public_endpoints then (st, CallNext)
      else
        let client = client_of r;
            e = refilled fl cfg st client now
        in if tokens e < 1
           then (case retry_after fl (tokens e) (refill_per_sec fl cfg) of
                   Inl exc \<Rightarrow> (st(client \<mapsto> e), Unhandled exc)
                 | Inr n \<Rightarrow> (st(client \<mapsto> e), TooManyRequests n))
           else
             let st' = st(client \<mapsto> e\<lparr>tokens := fl (tokens e - 1)\<rparr>)
             in if too_large int_of_str cfg r then (st', RequestEntityTooLarge)
                else (st', CallNext))"

text \<open>A whole run of requests, each with its clock reading, from a given store.\<close>

fun serve_all ::
  "(real \<Rightarrow> real) \<Rightarrow> (string \<Rightarrow> int option) \<Rightarrow> config \<Rightarrow> store \<Rightarrow> (request \<times> real) list
     \<Rightarrow> store" where
  "serve_all fl int_of_str cfg st [] = st"
| "serve_all fl int_of_str cfg st ((r, now) # rs) =
     serve_all fl int_of_str cfg (fst (dos_protection fl int_of_str cfg st r now)) rs"

subsection \<open>The bucket invariant\<close>

text \<open>A bucket holds between 0 and \<^verbatim>\<open>float(RATE_LIMIT_RPM)\<close> tokens.\<close>

definition bucket_ok :: "(real \<Rightarrow> real) \<Rightarrow> config \<Rightarrow> entry \<Rightarrow> bool" where
  "bucket_ok fl cfg e = (0 \<le> tokens e \<and> tokens e \<le> capacity fl cfg)"

definition store_ok :: "(real \<Rightarrow> real) \<Rightarrow> config \<Rightarrow> store \<Rightarrow> bool" where
  "store_ok fl cfg st = (\<forall>c e. st c = Some e \<longrightarrow> bucket_ok fl cfg e)"

text \<open>
  What the invariant needs of the rounding: it is monotone, it leaves 0 as it is, and
  a rounded value is not changed by rounding it again. Rounding to the nearest double
  is of this kind, and so is exact arithmetic.
\<close>

definition rounding :: "(real \<Rightarrow> real) \<Rightarrow> bool" where
  "rounding fl = (mono fl \<and> fl 0 = 0 \<and> (\<forall>x. fl (fl x) = fl x))"

subsection \<open>Sessions: \<^verbatim>\<open>verify_session\<close> and \<^verbatim>\<open>logout\<close>\<close>

text \<open>\<^verbatim>\<open>models.SessionData\<close>\<close>

record session_data =
  session_token :: string
  user_id :: "string option"
  is_admin :: bool
  created_at :: string

text \<open>The module global \<^verbatim>\<open>sessions: Dict[str, SessionData]\<close>.\<close>

type_synonym sessions = "string \<rightharpoonup> session_data"

text \<open>
  What a handler hands back: a \<^verbatim>\<open>LoginResponse(success, session_token, message)\<close>, the
  dictionary \<^verbatim>\<open>{"success": ..., "message": ...}\<close> of \<^verbatim>\<open>logout\<close>, or a raised
  \<^verbatim>\<open>HTTPException(status_code, detail)\<close>.
\<close>

datatype response =
    LoginResponse bool "string option" string
  | SuccessMessage bool string
  | HTTPException int string

text \<open>\<^verbatim>\<open>s.startswith(p)\<close>\<close>

definition startswith :: "string \<Rightarrow> string \<Rightarrow> bool" where
  "startswith s p = (take (length p) s = p)"

text \<open>
  Lines 152--159. \<^verbatim>\<open>not auth_header\<close> holds for a missing and for an empty header;
  \<^verbatim>\<open>auth_header[7:]\<close> drops the seven characters of \<^verbatim>\<open>"Bearer "\<close>.
\<close>

definition verify_session :: "sessions \<Rightarrow> request \<Rightarrow> session_data option" where
  "verify_session ss r =
     (case authorization r of
        None \<Rightarrow> None
      | Some auth_header \<Rightarrow>
          if auth_header = [] \<or> \<not> startswith auth_header ''Bearer '' then None
          else ss (drop 7 auth_header))"

text \<open>
  Lines 241--252. A \<^verbatim>\<open>SessionData\<close> object is always true in \<^verbatim>\<open>if session:\<close>. The
  deletion is by the \<^verbatim>\<open>session_token\<close> field of the record found, not by the token of
  the header; \<^verbatim>\<open>del\<close> of a key that the dictionary lacks raises \<^verbatim>\<open>KeyError\<close>.
\<close>

definition logout :: "sessions \<Rightarrow> request \<Rightarrow> sessions \<times> (py_exception + response)" where
  "logout ss r =
     (case verify_session ss r of
        None \<Rightarrow> (ss, Inr (SuccessMessage True ''Logged out successfully''))
      | Some session \<Rightarrow>
          if ss (session_token session) = None
          then (ss, Inl (KeyError (session_token session)))
          else (ss(session_token session := None),
                Inr (SuccessMessage True ''Logged out successfully'')))"

text \<open>
  Every record of the store sits under its own token: \<^verbatim>\<open>verify_login\<close>, the only
  writer, stores \<^verbatim>\<open>SessionData(session_token=t, ...)\<close> under \<^verbatim>\<open>t\<close>.
\<close>

definition sessions_wf :: "sessions \<Rightarrow> bool" where
  "sessions_wf ss = (\<forall>t s. ss t = Some s \<longrightarrow> session_token s = t)"

subsection \<open>Key material (\<^verbatim>\<open>security.py\<close>)\<close>

text \<open>
  The functions of the \<^verbatim>\<open>cryptography\<close> package, of \<^verbatim>\<open>base64\<close> and of the codecs that
  \<^verbatim>\<open>security.py\<close> calls are not code of the repository: they are the fields of a record
  that every function below takes as its first argument. \<open>'k\<close> is the type of private
  key objects. A field that can raise returns a sum.
  \<^item> \<open>generate_private_key key_size rnd\<close>: \<^verbatim>\<open>rsa.generate_private_key(65537, key_size)\<close>,
    with \<open>rnd\<close> for the random source;
  \<^item> \<open>private_bytes k\<close>, \<open>public_bytes k\<close>: the PKCS8 PEM of \<open>k\<close> and the
    SubjectPublicKeyInfo PEM of \<^verbatim>\<open>k.public_key()\<close>;
  \<^item> \<open>load_pem_private_key\<close>, \<open>b64decode\<close>, \<open>decrypt\<close> (PKCS#1 v1.5) and
    \<open>decode_utf8\<close> (\<^verbatim>\<open>bytes.decode('utf-8')\<close>);
  \<^item> the client's side, which no function of the repository calls:
    \<open>encrypt public_pem rnd m\<close> (\<open>None\<close> when \<open>m\<close> is too long for the key),
    \<open>b64encode\<close> and \<open>encode_utf8\<close>.
\<close>

record 'k crypto =
  generate_private_key :: "int \<Rightarrow> nat \<Rightarrow> py_exception + 'k"
  private_bytes :: "'k \<Rightarrow> string"
  public_bytes :: "'k \<Rightarrow> string"
  load_pem_private_key :: "string \<Rightarrow> py_exception + 'k"
  b64decode :: "string \<Rightarrow> py_exception + string"
  decrypt :: "'k \<Rightarrow> string \<Rightarrow> py_exception + string"
  decode_utf8 :: "string \<Rightarrow> py_exception + string"
  encrypt :: "string \<Rightarrow> nat \<Rightarrow> string \<Rightarrow> string option"
  b64encode :: "string \<Rightarrow> string"
  encode_utf8 :: "string \<Rightarrow> string"

text \<open>\<^verbatim>\<open>os.environ\<close>\<close>

type_synonym environ = "string \<rightharpoonup> string"

text \<open>Line 16.\<close>

definition IS_SERVERLESS :: "environ \<Rightarrow> bool" where
  "IS_SERVERLESS env =
     (env ''VERCEL'' = Some ''1'' \<or> env ''AWS_LAMBDA_FUNCTION_VERSION'' \<noteq> None)"

text \<open>
  The two module globals \<^verbatim>\<open>_in_memory_private_key\<close> and \<^verbatim>\<open>_in_memory_public_key_pem\<close>,
  and the contents of the two key files (\<open>None\<close>: the file does not exist).
\<close>

record 'k key_state =
  in_memory_private_key :: "'k option"
  in_memory_public_key_pem :: "string option"
  private_key_file :: "string option"
  public_key_file :: "string option"

text \<open>
  How the file system answers the \<^verbatim>\<open>try\<close> block of lines 71--79: both files written;
  an \<^verbatim>\<open>OSError\<close> before the private key file is written (\<^verbatim>\<open>mkdir\<close>, or opening
  it); an \<^verbatim>\<open>OSError\<close> after it is written, on the public key file. A file cut short by
  a failing \<^verbatim>\<open>write\<close> is not modelled.
\<close>

datatype fs_answer = Written | FailedBeforePrivate | FailedAfterPrivate

text \<open>
  Lines 28--87. The result is the new state and what the call returns or raises. The
  PEM produced by the library is ASCII, so \<^verbatim>\<open>public_pem.decode('utf-8')\<close> is the
  identity. In a persistent deployment whose write succeeds the in-memory slots are
  left as they are.
\<close>

definition generate_rsa_key_pair ::
  "'k crypto \<Rightarrow> environ \<Rightarrow> int \<Rightarrow> nat \<Rightarrow> fs_answer \<Rightarrow> 'k key_state
     \<Rightarrow> 'k key_state \<times> (py_exception + 'k \<times> string)" where
  "generate_rsa_key_pair lib env key_size rnd fs ks =
     (case generate_private_key lib key_size rnd of
        Inl exc \<Rightarrow> (ks, Inl exc)
      | Inr private_key \<Rightarrow>
          let private_pem = private_bytes lib private_key;
              public_pem = public_bytes lib private_key;
              in_memory = ks\<lparr>in_memory_private_key := Some private_key,
                             in_memory_public_key_pem := Some public_pem\<rparr>
          in if IS_SERVERLESS env then (in_memory, Inr (private_key, public_pem))
             else (case fs of
                     Written \<Rightarrow>
                       (ks\<lparr>private_key_file := Some private_pem,
                           public_key_file := Some public_pem\<rparr>,
                        Inr (private_key, public_pem))
                   | FailedBeforePrivate \<Rightarrow> (in_memory, Inr (private_key, public_pem))
                   | FailedAfterPrivate \<Rightarrow>
                       (in_memory\<lparr>private_key_file := Some private_pem\<rparr>,
                        Inr (private_key, public_pem))))"

text \<open>The string of an optional string that is known to be true.\<close>

fun str_of :: "string option \<Rightarrow> string" where
  "str_of None = []"
| "str_of (Some s) = s"

text \<open>Lines 90--116: memory, then the environment, then the file.\<close>

definition get_public_key_pem :: "'k crypto \<Rightarrow> environ \<Rightarrow> 'k key_state \<Rightarrow> py_exception + string" where
  "get_public_key_pem lib env ks =
     (if truthy (in_memory_public_key_pem ks) then Inr (str_of (in_memory_public_key_pem ks))
      else if truthy (env ''RSA_PUBLIC_KEY'') then Inr (str_of (env ''RSA_PUBLIC_KEY''))
      else (case public_key_file ks of
              Some bytes \<Rightarrow> decode_utf8 lib bytes
            | None \<Rightarrow> Inl (FileNotFoundError
                ''Public key not found. Please generate keys first or set RSA_PUBLIC_KEY environment variable.'')))"

text \<open>
  Lines 119--155: memory, then the environment, then the file. A key object is always
  true in \<^verbatim>\<open>if _in_memory_private_key:\<close>. An exception of the PEM parser propagates.
\<close>

definition load_private_key :: "'k crypto \<Rightarrow> environ \<Rightarrow> 'k key_state \<Rightarrow> py_exception + 'k" where
  "load_private_key lib env ks =
     (case in_memory_private_key ks of
        Some k \<Rightarrow> Inr k
      | None \<Rightarrow>
          if truthy (env ''RSA_PRIVATE_KEY'')
          then load_pem_private_key lib (str_of (env ''RSA_PRIVATE_KEY''))
          else (case private_key_file ks of
                  Some bytes \<Rightarrow> load_pem_private_key lib bytes
                | None \<Rightarrow> Inl (FileNotFoundError
                    ''Private key not found. Please generate keys first or set RSA_PRIVATE_KEY environment variable.'')))"

text \<open>Line 186: \<^verbatim>\<open>raise ValueError(f"Failed to decrypt password: {str(e)}")\<close>\<close>

definition decrypt_error :: "py_exception \<Rightarrow> py_exception" where
  "decrypt_error e = ValueError (''Failed to decrypt password: '' @ str_exc e)"

text \<open>Lines 158--186: every exception of the four steps is caught and wrapped.\<close>

definition decrypt_password :: "'k crypto \<Rightarrow> environ \<Rightarrow> 'k key_state \<Rightarrow> string \<Rightarrow> py_exception + string" where
  "decrypt_password lib env ks encrypted_password_b64 =
     (case load_private_key lib env ks of
        Inl e \<Rightarrow> Inl (decrypt_error e)
      | Inr private_key \<Rightarrow>
          (case b64decode lib encrypted_password_b64 of
             Inl e \<Rightarrow> Inl (decrypt_error e)
           | Inr encrypted_bytes \<Rightarrow>
               (case decrypt lib private_key encrypted_bytes of
                  Inl e \<Rightarrow> Inl (decrypt_error e)
                | Inr decrypted_bytes \<Rightarrow>
                    (case decode_utf8 lib decrypted_bytes of
                       Inl e \<Rightarrow> Inl (decrypt_error e)
                     | Inr password \<Rightarrow> Inr password))))"

text \<open>
  Lines 189--200: \<^verbatim>\<open>secrets.compare_digest\<close> on two strings. It raises \<^verbatim>\<open>TypeError\<close>
  unless both are ASCII, and otherwise tells whether they are equal. How long it takes
  is not part of the model.
\<close>

definition is_ascii :: "string \<Rightarrow> bool" where
  "is_ascii s = list_all (\<lambda>c. (of_char c :: nat) < 128) s"

definition verify_password :: "string \<Rightarrow> string \<Rightarrow> py_exception + bool" where
  "verify_password password stored_password =
     (if is_ascii password \<and> is_ascii stored_password
      then Inr (password = stored_password)
      else Inl (TypeError ''comparing strings with non-ASCII characters is not supported''))"

text \<open>
  Lines 203--238. The second component tells which branch was taken, by the message
  printed: \<open>FoundInMemory\<close> for the early return, \<open>Found\<close> for the last \<^verbatim>\<open>else\<close>,
  \<open>Generated\<close> when \<^verbatim>\<open>generate_rsa_key_pair\<close> was called and returned, \<open>Raised\<close> when
  it was called and the library's generator raised.
\<close>

datatype ensure_outcome = FoundInMemory | Found | Generated | Raised py_exception

text \<open>Lines 219--231: the environment's pair is adopted when both variables are set
  and the private one parses; an exception of the parser is printed and dropped.\<close>

definition adopt_environment :: "'k crypto \<Rightarrow> environ \<Rightarrow> 'k key_state \<Rightarrow> 'k key_state" where
  "adopt_environment lib env ks =
     (if truthy (env ''RSA_PRIVATE_KEY'') \<and> truthy (env ''RSA_PUBLIC_KEY'')
      then (case load_pem_private_key lib (str_of (env ''RSA_PRIVATE_KEY'')) of
              Inl e \<Rightarrow> ks
            | Inr k \<Rightarrow> ks\<lparr>in_memory_private_key := Some k,
                          in_memory_public_key_pem := env ''RSA_PUBLIC_KEY''\<rparr>)
      else ks)"

definition ensure_keys_exist ::
  "'k crypto \<Rightarrow> environ \<Rightarrow> int \<Rightarrow> nat \<Rightarrow> fs_answer \<Rightarrow> 'k key_state
     \<Rightarrow> 'k key_state \<times> ensure_outcome" where
  "ensure_keys_exist lib env key_size rnd fs ks =
     (if in_memory_private_key ks \<noteq> None \<and> truthy (in_memory_public_key_pem ks)
      then (ks, FoundInMemory)
      else
        let ks1 = adopt_environment lib env ks
        in if IS_SERVERLESS env \<or> in_memory_private_key ks1 = None
           then (case generate_rsa_key_pair lib env key_size rnd fs ks1 of
                   (ks2, Inl e) \<Rightarrow> (ks2, Raised e)
                 | (ks2, Inr pair) \<Rightarrow> (ks2, Generated))
           else (ks1, Found))"

text \<open>A new pair was asked of the generator.\<close>

fun generation_attempted :: "ensure_outcome \<Rightarrow> bool" where
  "generation_attempted Generated = True"
| "generation_attempted (Raised e) = True"
| "generation_attempted FoundInMemory = False"
| "generation_attempted Found = False"

subsection \<open>The login handler: \<^verbatim>\<open>verify_login\<close>\<close>

text \<open>
  Lines 200--238. \<open>token\<close> is what \<^verbatim>\<open>generate_session_token()\<close> returns and \<open>created\<close>
  what \<^verbatim>\<open>datetime.now().isoformat()\<close> returns. Every exception of the \<^verbatim>\<open>try\<close> block
  becomes \<^verbatim>\<open>HTTPException(400, f"Authentication failed: {str(e)}")\<close>.
\<close>

definition verify_login ::
  "'k crypto \<Rightarrow> environ \<Rightarrow> config \<Rightarrow> 'k key_state \<Rightarrow> sessions \<Rightarrow> string \<Rightarrow> string \<Rightarrow> string
     \<Rightarrow> sessions \<times> response" where
  "verify_login lib env cfg ks ss encrypted_password token created =
     (case decrypt_password lib env ks encrypted_password of
        Inl e \<Rightarrow> (ss, HTTPException 400 (''Authentication failed: '' @ str_exc e))
      | Inr password \<Rightarrow>
          (case verify_password password (ADMIN_PASSWORD cfg) of
             Inl e \<Rightarrow> (ss, HTTPException 400 (''Authentication failed: '' @ str_exc e))
           | Inr ok \<Rightarrow>
               if ok
               then (ss(token \<mapsto> \<lparr>session_token = token, user_id = None, is_admin = True,
                                   created_at = created\<rparr>),
                     LoginResponse True (Some token) ''Login successful'')
               else (ss, LoginResponse False None ''Invalid password'')))"

subsection \<open>What the library is expected to do\<close>

text \<open>
  The properties of the library that the round trip rests on: the PEM of a key parses
  back to the key, base64 decoding undoes the encoding, and decryption under a private
  key undoes encryption under its public key.
\<close>

definition library_ok :: "'k crypto \<Rightarrow> bool" where
  "library_ok lib =
     ((\<forall>k. load_pem_private_key lib (private_bytes lib k) = Inr k) \<and>
      (\<forall>bs. b64decode lib (b64encode lib bs) = Inr bs) \<and>
      (\<forall>k rnd m c. encrypt lib (public_bytes lib k) rnd m = Some c \<longrightarrow> decrypt lib k c = Inr m))"

section \<open>Instances for evaluation, and the specification's formulas\<close>

text \<open>
  An instance of \<open>int_of_str\<close> for evaluating examples: plain ASCII decimal digits. It
  agrees with the builtin on short strings of digits and on strings with a character
  that is not a digit, a sign, an underscore or white space.
\<close>

definition digit_val :: "char \<Rightarrow> int option" where
  "digit_val c =
     (let n = of_char c :: nat in
      if 48 \<le> n \<and> n \<le> 57 then Some (int n - 48) else None)"

fun digits_val :: "int \<Rightarrow> string \<Rightarrow> int option" where
  "digits_val acc [] = Some acc"
| "digits_val acc (c # cs) =
     (case digit_val c of None \<Rightarrow> None | Some d \<Rightarrow> digits_val (10 * acc + d) cs)"

definition decimal :: "string \<Rightarrow> int option" where
  "decimal s = (if s = [] then None else digits_val 0 s)"

text \<open>The retry-after of the specification's words:
  \<^verbatim>\<open>ceil((1 - available_tokens) / refill_rate)\<close>, minimum 1.\<close>

definition spec_retry_after :: "real \<Rightarrow> real \<Rightarrow> int" where
  "spec_retry_after available rate = max 1 \<lceil>(1 - available) / rate\<rceil>"

subsection \<open>Concrete inputs for the evaluated examples\<close>

text \<open>
  Exact arithmetic. Every floating-point value that arises in the examples below is a
  multiple of 1/8 below 1000, so rounding to the nearest double changes none of them.
\<close>

definition exact :: "real \<Rightarrow> real" where
  "exact x = x"

definition cfgA :: config where
  "cfgA = \<lparr>RATE_LIMIT_RPM = 15, MAX_REQUEST_SIZE = 100, ADMIN_PASSWORD = ''admin123''\<rparr>"

text \<open>A client that has used up its fifteen tokens at time 100.\<close>

definition st_empty_bucket :: store where
  "st_empty_bucket = [''10.0.0.1'' \<mapsto> \<lparr>tokens = 0, last_time = 100\<rparr>]"

text \<open>A client with two tokens left at time 100.\<close>

definition st_two_tokens :: store where
  "st_two_tokens = [''10.0.0.1'' \<mapsto> \<lparr>tokens = 2, last_time = 100\<rparr>]"

definition req :: "string \<Rightarrow> string option \<Rightarrow> request" where
  "req p cl = \<lparr>path = p, client_host = Some ''10.0.0.1'', content_length = cl,
               authorization = None\<rparr>"


subsection \<open>A small library instance\<close>

text \<open>
  A stand-in for the library record, used only to run the model on concrete inputs;
  the theorems hold for every library. A private key is a number \<open>k\<close>; its PEM is a
  header followed by \<open>k\<close> strokes; a ciphertext is the key's strokes, a bar, and the
  message; the base64 text of a byte string is the string followed by \<^verbatim>\<open>=\<close>. The
  texts of the exceptions follow those of the real library.
\<close>

definition strokes :: "nat \<Rightarrow> string" where
  "strokes k = replicate k (CHR ''I'')"

definition toy_generate :: "int \<Rightarrow> nat \<Rightarrow> py_exception + nat" where
  "toy_generate key_size rnd =
     (if key_size < 512 then Inl (ValueError ''key_size must be at least 512-bits.'')
      else Inr rnd)"

definition toy_load_pem :: "string \<Rightarrow> py_exception + nat" where
  "toy_load_pem s =
     (if take 12 s = ''PRIVATE KEY '' \<and> drop 12 s = strokes (length s - 12)
      then Inr (length s - 12)
      else Inl (ValueError ''Could not deserialize key data.''))"

definition toy_b64decode :: "string \<Rightarrow> py_exception + string" where
  "toy_b64decode s =
     (if s \<noteq> [] \<and> last s = CHR ''=''
      then Inr (butlast s) else Inl (OtherError ''Incorrect padding''))"

definition toy_decrypt :: "nat \<Rightarrow> string \<Rightarrow> py_exception + string" where
  "toy_decrypt k c =
     (if take (Suc k) c = strokes k @ ''|''
      then Inr (drop (Suc k) c) else Inl (ValueError ''Decryption failed''))"

definition toy_decode_utf8 :: "string \<Rightarrow> py_exception + string" where
  "toy_decode_utf8 bs =
     (if is_ascii bs then Inr bs
      else Inl (OtherError ''utf-8 codec cannot decode byte: invalid start byte''))"

definition toy_encrypt :: "string \<Rightarrow> nat \<Rightarrow> string \<Rightarrow> string option" where
  "toy_encrypt public_pem rnd m =
     (if take 11 public_pem = ''PUBLIC KEY '' \<and> length m \<le> 245
      then Some (drop 11 public_pem @ ''|'' @ m) else None)"

definition toy :: "nat crypto" where
  "toy = \<lparr>generate_private_key = toy_generate,
          private_bytes = (\<lambda>k. ''PRIVATE KEY '' @ strokes k),
          public_bytes = (\<lambda>k. ''PUBLIC KEY '' @ strokes k),
          load_pem_private_key = toy_load_pem,
          b64decode = toy_b64decode,
          decrypt = toy_decrypt,
          decode_utf8 = toy_decode_utf8,
          encrypt = toy_encrypt,
          b64encode = (\<lambda>bs. bs @ ''=''),
          encode_utf8 = (\<lambda>s. s)\<rparr>"

text \<open>A process that holds no key and has no key file.\<close>

definition no_keys :: "nat key_state" where
  "no_keys = \<lparr>in_memory_private_key = None, in_memory_public_key_pem = None,
              private_key_file = None, public_key_file = None\<rparr>"

text \<open>A process that holds the pair of key 3 in memory.\<close>

definition key3_in_memory :: "nat key_state" where
  "key3_in_memory = no_keys\<lparr>in_memory_private_key := Some 3,
                            in_memory_public_key_pem := Some ''PUBLIC KEY III''\<rparr>"

text \<open>A serverless deployment that supplies the pair of key 3 in the environment.\<close>

definition env_serverless :: environ where
  "env_serverless = [''VERCEL'' \<mapsto> ''1'',
                     ''RSA_PRIVATE_KEY'' \<mapsto> ''PRIVATE KEY III'',
                     ''RSA_PUBLIC_KEY'' \<mapsto> ''PUBLIC KEY III'']"

text \<open>A persistent deployment that supplies the same pair.\<close>

definition env_persistent :: environ where
  "env_persistent = [''RSA_PRIVATE_KEY'' \<mapsto> ''PRIVATE KEY III'',
                     ''RSA_PUBLIC_KEY'' \<mapsto> ''PUBLIC KEY III'']"

text \<open>A persistent deployment that sets the private key variable only.\<close>

definition env_private_only :: environ where
  "env_private_only = [''RSA_PRIVATE_KEY'' \<mapsto> ''PRIVATE KEY III'']"

text \<open>A session store with two sessions.\<close>

definition two_sessions :: sessions where
  "two_sessions =
     [''aa'' \<mapsto> \<lparr>session_token = ''aa'', user_id = None, is_admin = True, created_at = ''t1''\<rparr>,
      ''bb'' \<mapsto> \<lparr>session_token = ''bb'', user_id = None, is_admin = True, created_at = ''t2''\<rparr>]"

definition bearer :: "string option \<Rightarrow> request" where
  "bearer h = \<lparr>path = ''/api/logout'', client_host = Some ''10.0.0.1'', content_length = None,
               authorization = h\<rparr>"

section \<open>Properties of the rate limiter\<close>

lemmas dos_eval =
  dos_protection_def public_endpoints_def client_of_def refilled_def refill_def get_entry_def
  refill_per_sec_def capacity_def exact_def retry_after_def int_of_float_def too_large_def Let_def
  cfgA_def st_empty_bucket_def st_two_tokens_def req_def decimal_def digit_val_def

subsection \<open>The bucket invariant is preserved\<close>

lemma rounding_nonneg: "rounding fl \<Longrightarrow> 0 \<le> x \<Longrightarrow> 0 \<le> fl x"
proof -
  assume r: "rounding fl" and x: "0 \<le> x"
  from r x have "fl 0 \<le> fl x"
    by (auto simp: rounding_def dest: monoD)
  with r show ?thesis
    by (simp add: rounding_def)
qed

lemma capacity_nonneg: "rounding fl \<Longrightarrow> 0 \<le> RATE_LIMIT_RPM cfg \<Longrightarrow> 0 \<le> capacity fl cfg"
  by (simp add: capacity_def rounding_nonneg)

lemma refill_per_sec_nonneg:
  "rounding fl \<Longrightarrow> 0 \<le> RATE_LIMIT_RPM cfg \<Longrightarrow> 0 \<le> refill_per_sec fl cfg"
  by (simp add: refill_per_sec_def rounding_nonneg capacity_nonneg)

lemma get_entry_ok:
  "rounding fl \<Longrightarrow> 0 \<le> RATE_LIMIT_RPM cfg \<Longrightarrow> store_ok fl cfg st
     \<Longrightarrow> bucket_ok fl cfg (get_entry fl cfg st c now)"
  by (auto simp: get_entry_def store_ok_def bucket_ok_def capacity_nonneg split: option.splits)

lemma refill_ok:
  assumes r: "rounding fl" and cap: "0 \<le> RATE_LIMIT_RPM cfg" and ok: "bucket_ok fl cfg e"
  shows "bucket_ok fl cfg (refill fl cfg now e)"
proof (cases "fl (now - last_time e) > 0")
  case False
  then show ?thesis using ok by (simp add: refill_def)
next
  case True
  from ok have c: "0 \<le> capacity fl cfg" and t: "0 \<le> tokens e"
    by (auto simp: bucket_ok_def)
  from True have "0 \<le> fl (now - last_time e) * refill_per_sec fl cfg"
    using refill_per_sec_nonneg [OF r cap] by simp
  then have "0 \<le> fl (fl (now - last_time e) * refill_per_sec fl cfg)"
    using r by (rule rounding_nonneg [rotated])
  with t have "0 \<le> tokens e + fl (fl (now - last_time e) * refill_per_sec fl cfg)"
    by simp
  then have "0 \<le> fl (tokens e + fl (fl (now - last_time e) * refill_per_sec fl cfg))"
    using r by (rule rounding_nonneg [rotated])
  with c True show ?thesis
    by (simp add: refill_def bucket_ok_def Let_def)
qed

lemma refilled_ok:
  "rounding fl \<Longrightarrow> 0 \<le> RATE_LIMIT_RPM cfg \<Longrightarrow> store_ok fl cfg st
     \<Longrightarrow> bucket_ok fl cfg (refilled fl cfg st c now)"
  unfolding refilled_def by (intro refill_ok get_entry_ok)

text \<open>The refill never leaves more than the capacity, whatever the rounding.\<close>

lemma refill_capped:
  "tokens e \<le> capacity fl cfg \<Longrightarrow> tokens (refill fl cfg now e) \<le> capacity fl cfg"
  by (simp add: refill_def Let_def)

lemma store_ok_empty: "store_ok fl cfg Map.empty"
  by (simp add: store_ok_def)

lemma store_ok_step:
  assumes r: "rounding fl" and cap: "0 \<le> RATE_LIMIT_RPM cfg" and ok: "store_ok fl cfg st"
  shows "store_ok fl cfg (fst (dos_protection fl int_of_str cfg st r' now))"
proof -
  let ?e = "refilled fl cfg st (client_of r') now"
  have e: "bucket_ok fl cfg ?e" using r cap ok by (rule refilled_ok)
  have dec: "bucket_ok fl cfg (?e\<lparr>tokens := fl (tokens ?e - 1)\<rparr>)" if "\<not> tokens ?e < 1"
  proof -
    from that have "0 \<le> tokens ?e - 1"
      by simp
    then have lo: "0 \<le> fl (tokens ?e - 1)"
      using r by (rule rounding_nonneg [rotated])
    from e have "tokens ?e - 1 \<le> capacity fl cfg"
      by (simp add: bucket_ok_def)
    with r have "fl (tokens ?e - 1) \<le> fl (capacity fl cfg)"
      by (auto simp: rounding_def dest: monoD)
    moreover from r have "fl (capacity fl cfg) = capacity fl cfg"
      by (simp add: capacity_def rounding_def)
    ultimately show ?thesis
      using lo by (simp add: bucket_ok_def)
  qed
  show ?thesis
    using ok e dec
    by (auto simp: dos_protection_def Let_def store_ok_def split: sum.splits if_splits)
qed

text \<open>
  \<^bold>\<open>C5.\<close> With a capacity \<open>C = float(RATE_LIMIT_RPM) \<ge> 0\<close>, and whatever the rounding
  of the floating-point operations: if every bucket of the store holds between 0 and
  \<open>C\<close> tokens, then so does every bucket of the store after the middleware has
  processed any request at any clock reading, whatever it answers. The refill is capped
  at \<open>C\<close>, and a token is taken only from a bucket that holds at least one.
\<close>

theorem bucket_invariant_preserved:
  assumes "rounding fl" and "0 \<le> RATE_LIMIT_RPM cfg"
    and "\<forall>c e. st c = Some e \<longrightarrow> 0 \<le> tokens e \<and> tokens e \<le> capacity fl cfg"
    and "fst (dos_protection fl int_of_str cfg st r now) c' = Some e'"
  shows "0 \<le> tokens e' \<and> tokens e' \<le> capacity fl cfg"
proof -
  from assms(3) have "store_ok fl cfg st"
    by (simp add: store_ok_def bucket_ok_def)
  with assms(1,2) have "store_ok fl cfg (fst (dos_protection fl int_of_str cfg st r now))"
    by (rule store_ok_step)
  with assms(4) show ?thesis
    by (simp add: store_ok_def bucket_ok_def)
qed

lemma rounding_exact: "rounding exact"
  by (simp add: rounding_def exact_def mono_def)

theorem bucket_invariant_preserved_witness:
  "rounding exact \<and> 0 \<le> RATE_LIMIT_RPM cfgA \<and>
   fst (dos_protection exact decimal cfgA st_two_tokens (req ''/api/verify'' None) 102)
     ''10.0.0.1'' = Some \<lparr>tokens = 3 / 2, last_time = 102\<rparr> \<and>
   0 \<le> tokens \<lparr>tokens = 3 / 2, last_time = 102\<rparr> \<and>
   tokens \<lparr>tokens = 3 / 2, last_time = 102\<rparr> \<le> capacity exact cfgA"
proof -
  have cap: "0 \<le> RATE_LIMIT_RPM cfgA"
    by (simp add: cfgA_def)
  have inv: "\<forall>c e. st_two_tokens c = Some e \<longrightarrow>
      0 \<le> tokens e \<and> tokens e \<le> capacity exact cfgA"
    by (simp add: st_two_tokens_def cfgA_def capacity_def exact_def)
  have run: "fst (dos_protection exact decimal cfgA st_two_tokens (req ''/api/verify'' None) 102)
      ''10.0.0.1'' = Some \<lparr>tokens = 3 / 2, last_time = 102\<rparr>"
    by (simp add: dos_eval)
  from bucket_invariant_preserved [OF rounding_exact cap inv run] rounding_exact cap run
  show ?thesis
    by simp
qed

text \<open>The same over a whole run of requests from the empty store of a fresh process.\<close>

lemma store_ok_serve_all:
  "rounding fl \<Longrightarrow> 0 \<le> RATE_LIMIT_RPM cfg \<Longrightarrow> store_ok fl cfg st
     \<Longrightarrow> store_ok fl cfg (serve_all fl int_of_str cfg st rs)"
  by (induction rs arbitrary: st) (auto simp: store_ok_step)

lemma reachable_store_ok:
  "rounding fl \<Longrightarrow> 0 \<le> RATE_LIMIT_RPM cfg
     \<Longrightarrow> store_ok fl cfg (serve_all fl int_of_str cfg Map.empty rs)"
  by (simp add: store_ok_serve_all store_ok_empty)

subsection \<open>The retry-after value\<close>

lemma int_of_float_above_one: "q > 1 \<Longrightarrow> int_of_float q = max 1 \<lfloor>q\<rfloor>"
  by (simp add: int_of_float_def max_def)

lemma floor_at_most_one: "\<not> q > (1::real) \<Longrightarrow> max 1 \<lfloor>q\<rfloor> = 1"
  by (simp add: max_def)

lemma retry_after_floor:
  "retry_after fl tok rps = Inr n \<Longrightarrow> n = max 1 \<lfloor>fl (fl (1 - tok) / rps)\<rfloor>"
  by (auto simp: retry_after_def Let_def int_of_float_above_one floor_at_most_one
      split: if_splits)

text \<open>
  \<^bold>\<open>C1\<close>, as stated, fails. Capacity 15 per minute, so a refill rate of 1/4 token per
  second; the client's bucket was emptied at time 100 and the next request comes at
  time 101.5. The refill leaves 3/8 of a token, the request is refused, and
  \<open>(1 - 3/8) / (1/4) = 5/2\<close>: the header says 2, the ceiling is 3.
\<close>

theorem retry_after_not_ceiling:
  "tokens (refilled exact cfgA st_empty_bucket ''10.0.0.1'' (203 / 2)) = 3 / 8 \<and>
   refill_per_sec exact cfgA = 1 / 4 \<and>
   snd (dos_protection exact decimal cfgA st_empty_bucket (req ''/api/verify'' None) (203 / 2))
     = TooManyRequests 2 \<and>
   spec_retry_after (3 / 8) (1 / 4) = 3"
  by (simp add: dos_eval spec_retry_after_def)

text \<open>
  \<^bold>\<open>C1\<close>, amended. The middleware answers 429 with Retry-After \<open>n\<close> exactly when the
  request is off the public list, the bucket it tested (created if new, and refilled)
  holds fewer than one token, the refill rate is not zero, and \<open>n\<close> is the
  floating-point quotient \<open>(1 - available_tokens) / refill_rate\<close> rounded \<^emph>\<open>down\<close> to an
  integer, with a minimum of 1.
\<close>

theorem retry_after_truncates:
  "(snd (dos_protection fl int_of_str cfg st r now) = TooManyRequests n)
     = (path r \<notin> set public_endpoints \<and>
        tokens (refilled fl cfg st (client_of r) now) < 1 \<and>
        refill_per_sec fl cfg \<noteq> 0 \<and>
        n = max 1 \<lfloor>fl (fl (1 - tokens (refilled fl cfg st (client_of r) now))
                            / refill_per_sec fl cfg)\<rfloor>)"
proof (cases "path r \<notin> set public_endpoints \<and> tokens (refilled fl cfg st (client_of r) now) < 1")
  case False
  then show ?thesis
    by (auto simp: dos_protection_def Let_def)
next
  case True
  let ?tok = "tokens (refilled fl cfg st (client_of r) now)"
  show ?thesis
  proof (cases "retry_after fl ?tok (refill_per_sec fl cfg)")
    case (Inl exc)
    then have "refill_per_sec fl cfg = 0"
      by (auto simp: retry_after_def Let_def split: if_splits)
    with True Inl show ?thesis
      by (simp add: dos_protection_def Let_def)
  next
    case (Inr m)
    then have rate: "refill_per_sec fl cfg \<noteq> 0"
      by (auto simp: retry_after_def split: if_splits)
    from Inr have "m = max 1 \<lfloor>fl (fl (1 - ?tok) / refill_per_sec fl cfg)\<rfloor>"
      by (rule retry_after_floor)
    with True Inr rate show ?thesis
      by (auto simp: dos_protection_def Let_def)
  qed
qed

theorem retry_after_truncates_witness:
  "path (req ''/api/verify'' None) \<notin> set public_endpoints \<and>
   tokens (refilled exact cfgA st_empty_bucket (client_of (req ''/api/verify'' None)) (203 / 2)) < 1 \<and>
   refill_per_sec exact cfgA \<noteq> 0 \<and>
   (2::int) = max 1 \<lfloor>exact (exact (1 - tokens (refilled exact cfgA st_empty_bucket
                 (client_of (req ''/api/verify'' None)) (203 / 2))) / refill_per_sec exact cfgA)\<rfloor> \<and>
   snd (dos_protection exact decimal cfgA st_empty_bucket (req ''/api/verify'' None) (203 / 2))
     = TooManyRequests 2"
proof -
  let ?r = "req ''/api/verify'' None"
  have a: "path ?r \<notin> set public_endpoints"
    by (simp add: req_def public_endpoints_def)
  have b: "tokens (refilled exact cfgA st_empty_bucket (client_of ?r) (203 / 2)) < 1"
    by (simp add: dos_eval)
  have c: "refill_per_sec exact cfgA \<noteq> 0"
    by (simp add: dos_eval)
  have d: "(2::int) = max 1 \<lfloor>exact (exact (1 - tokens (refilled exact cfgA st_empty_bucket
             (client_of ?r) (203 / 2))) / refill_per_sec exact cfgA)\<rfloor>"
    by (simp add: dos_eval)
  from retry_after_truncates [where fl = exact and int_of_str = decimal and cfg = cfgA
      and st = st_empty_bucket and r = ?r and now = "203 / 2" and n = 2] a b c d
  show ?thesis
    by blast
qed

subsection \<open>Which requests are rate limited\<close>

text \<open>
  \<^bold>\<open>C2\<close>, as stated, fails: \<^verbatim>\<open>/api/health\<close> is not on the list of line 101. A health
  request of a client whose bucket is empty is refused with 429, and one of a client
  with two tokens costs a token.
\<close>

theorem health_is_rate_limited:
  "snd (dos_protection exact decimal cfgA st_empty_bucket (req ''/api/health'' None) 100)
     = TooManyRequests 4 \<and>
   fst (dos_protection exact decimal cfgA st_two_tokens (req ''/api/health'' None) 100) ''10.0.0.1''
     = Some \<lparr>tokens = 1, last_time = 100\<rparr>"
  by (simp add: dos_eval)

text \<open>
  \<^bold>\<open>C2\<close>, amended. A request whose path is one of \<^verbatim>\<open>/\<close>, \<^verbatim>\<open>/api/public-key\<close>,
  \<^verbatim>\<open>/favicon.ico\<close>, \<^verbatim>\<open>/docs\<close>, \<^verbatim>\<open>/openapi.json\<close> is passed on with the store untouched.
  Every other request goes through the client's bucket: afterwards the store holds the
  client's bucket, one token lighter than the refilled bucket when that held at least
  one token, and the request is not passed on when it held less. The health endpoint
  \<^verbatim>\<open>/api/health\<close> is not on the list.
\<close>

theorem rate_limit_scope:
  "(path r \<in> set public_endpoints \<longrightarrow> dos_protection fl int_of_str cfg st r now = (st, CallNext)) \<and>
   (path r \<notin> set public_endpoints \<longrightarrow>
      (\<exists>e. fst (dos_protection fl int_of_str cfg st r now) (client_of r) = Some e \<and>
           tokens e = (if tokens (refilled fl cfg st (client_of r) now) < 1
                       then tokens (refilled fl cfg st (client_of r) now)
                       else fl (tokens (refilled fl cfg st (client_of r) now) - 1))) \<and>
      (tokens (refilled fl cfg st (client_of r) now) < 1 \<longrightarrow>
         snd (dos_protection fl int_of_str cfg st r now) \<noteq> CallNext)) \<and>
   set public_endpoints = {''/'', ''/api/public-key'', ''/favicon.ico'', ''/docs'', ''/openapi.json''} \<and>
   ''/api/health'' \<notin> set public_endpoints"
  by (auto simp: dos_protection_def Let_def public_endpoints_def split: sum.splits)

theorem rate_limit_scope_witness:
  "path (req ''/api/public-key'' None) \<in> set public_endpoints \<and>
   dos_protection exact decimal cfgA st_empty_bucket (req ''/api/public-key'' None) 100
     = (st_empty_bucket, CallNext) \<and>
   path (req ''/api/tunnels'' None) \<notin> set public_endpoints \<and>
   tokens (refilled exact cfgA st_empty_bucket (client_of (req ''/api/tunnels'' None)) 100) < 1 \<and>
   snd (dos_protection exact decimal cfgA st_empty_bucket (req ''/api/tunnels'' None) 100) \<noteq> CallNext"
proof -
  have a: "path (req ''/api/public-key'' None) \<in> set public_endpoints"
    by (simp add: req_def public_endpoints_def)
  have b: "path (req ''/api/tunnels'' None) \<notin> set public_endpoints"
    by (simp add: req_def public_endpoints_def)
  have c: "tokens (refilled exact cfgA st_empty_bucket (client_of (req ''/api/tunnels'' None)) 100) < 1"
    by (simp add: dos_eval)
  from a b c
    rate_limit_scope [where r = "req ''/api/public-key'' None" and fl = exact
      and int_of_str = decimal and cfg = cfgA and st = st_empty_bucket and now = 100]
    rate_limit_scope [where r = "req ''/api/tunnels'' None" and fl = exact
      and int_of_str = decimal and cfg = cfgA and st = st_empty_bucket and now = 100]
  show ?thesis
    by blast
qed

subsection \<open>The size check\<close>

text \<open>
  \<^bold>\<open>C9.\<close> A request off the public list, whose Content-Length header reads as an
  integer above \<^verbatim>\<open>MAX_REQUEST_SIZE\<close>, and whose bucket (created if new, and refilled)
  holds at least one token, is answered 413, and the bucket in the store is one token
  lighter than the refilled bucket.
\<close>

theorem oversized_request_costs_a_token:
  assumes "path r \<notin> set public_endpoints"
    and "content_length r = Some s" and "s \<noteq> []"
    and "int_of_str s = Some n" and "n > MAX_REQUEST_SIZE cfg"
    and "tokens (refilled fl cfg st (client_of r) now) \<ge> 1"
  shows "snd (dos_protection fl int_of_str cfg st r now) = RequestEntityTooLarge \<and>
         (\<exists>e. fst (dos_protection fl int_of_str cfg st r now) (client_of r) = Some e \<and>
              tokens e = fl (tokens (refilled fl cfg st (client_of r) now) - 1))"
  using assms by (simp add: dos_protection_def Let_def too_large_def)

theorem oversized_request_costs_a_token_witness:
  "path (req ''/api/verify'' (Some ''101'')) \<notin> set public_endpoints \<and>
   decimal ''101'' = Some 101 \<and> 101 > MAX_REQUEST_SIZE cfgA \<and>
   tokens (refilled exact cfgA st_two_tokens (client_of (req ''/api/verify'' (Some ''101''))) 100) = 2 \<and>
   snd (dos_protection exact decimal cfgA st_two_tokens (req ''/api/verify'' (Some ''101'')) 100)
     = RequestEntityTooLarge \<and>
   (\<exists>e. fst (dos_protection exact decimal cfgA st_two_tokens (req ''/api/verify'' (Some ''101'')) 100)
           (client_of (req ''/api/verify'' (Some ''101''))) = Some e \<and> tokens e = 1)"
proof -
  let ?r = "req ''/api/verify'' (Some ''101'')"
  have a: "path ?r \<notin> set public_endpoints"
    by (simp add: req_def public_endpoints_def)
  have b: "content_length ?r = Some ''101''"
    by (simp add: req_def)
  have c: "''101'' \<noteq> []"
    by simp
  have d: "decimal ''101'' = Some 101"
    by (simp add: decimal_def digit_val_def)
  have e: "101 > MAX_REQUEST_SIZE cfgA"
    by (simp add: cfgA_def)
  have f: "tokens (refilled exact cfgA st_two_tokens (client_of ?r) 100) = 2"
    by (simp add: dos_eval)
  then have g: "tokens (refilled exact cfgA st_two_tokens (client_of ?r) 100) \<ge> 1"
    by simp
  from oversized_request_costs_a_token
         [where fl = exact and int_of_str = decimal and s = "''101''" and n = 101,
          OF a b c d e g]
       a d e f
  show ?thesis
    by (simp add: exact_def)
qed

text \<open>
  \<^bold>\<open>C10\<close>, as stated, fails for a client whose bucket is empty: the request with the
  header \<^verbatim>\<open>Content-Length: abc\<close> is answered 429 and does not reach the handler.
\<close>

theorem bad_content_length_may_be_refused:
  "decimal ''abc'' = None \<and>
   path (req ''/api/verify'' (Some ''abc'')) \<notin> set public_endpoints \<and>
   snd (dos_protection exact decimal cfgA st_empty_bucket (req ''/api/verify'' (Some ''abc'')) 100)
     = TooManyRequests 4"
  by (simp add: dos_eval)

text \<open>
  \<^bold>\<open>C10\<close>, amended. For a request off the public list whose Content-Length header is
  present and is empty or not an integer, the size check has no effect: the middleware
  does exactly what it does for the same request without the header, the answer is
  never 413, and the request is passed on to the handler if and only if the bucket
  (created if new, and refilled) holds at least one token.
\<close>

theorem bad_content_length_skips_size_check:
  assumes "path r \<notin> set public_endpoints"
    and "content_length r = Some s" and "s = [] \<or> int_of_str s = None"
  shows "dos_protection fl int_of_str cfg st r now
           = dos_protection fl int_of_str cfg st (r\<lparr>content_length := None\<rparr>) now \<and>
         snd (dos_protection fl int_of_str cfg st r now) \<noteq> RequestEntityTooLarge \<and>
         (snd (dos_protection fl int_of_str cfg st r now) = CallNext)
           = (tokens (refilled fl cfg st (client_of r) now) \<ge> 1)"
  using assms
  by (auto simp: dos_protection_def Let_def too_large_def client_of_def split: sum.splits)

theorem bad_content_length_skips_size_check_witness:
  "path (req ''/api/verify'' (Some ''abc'')) \<notin> set public_endpoints \<and>
   decimal ''abc'' = None \<and>
   tokens (refilled exact cfgA st_two_tokens (client_of (req ''/api/verify'' (Some ''abc''))) 100) \<ge> 1 \<and>
   snd (dos_protection exact decimal cfgA st_two_tokens (req ''/api/verify'' (Some ''abc'')) 100)
     = CallNext"
proof -
  let ?r = "req ''/api/verify'' (Some ''abc'')"
  have a: "path ?r \<notin> set public_endpoints"
    by (simp add: req_def public_endpoints_def)
  have b: "content_length ?r = Some ''abc''"
    by (simp add: req_def)
  have c: "decimal ''abc'' = None"
    by (simp add: decimal_def digit_val_def)
  then have c': "''abc'' = [] \<or> decimal ''abc'' = None"
    by simp
  have d: "tokens (refilled exact cfgA st_two_tokens (client_of ?r) 100) \<ge> 1"
    by (simp add: dos_eval)
  from bad_content_length_skips_size_check
         [where fl = exact and int_of_str = decimal and s = "''abc''" and cfg = cfgA
            and st = st_two_tokens
            and now = 100, OF a b c']
       a c d
  show ?thesis
    by blast
qed

section \<open>Properties of the session store\<close>

lemma startswith_split: "startswith h p \<Longrightarrow> h = p @ drop (length p) h"
  by (metis append_take_drop_id startswith_def)

lemma bearer_split: "startswith h ''Bearer '' \<Longrightarrow> h = ''Bearer '' @ drop 7 h"
proof -
  assume a: "startswith h ''Bearer ''"
  have len: "length ''Bearer '' = 7"
    by simp
  from startswith_split [OF a] show ?thesis
    unfolding len .
qed

lemma verify_session_bearer:
  "authorization r = Some (''Bearer '' @ t) \<Longrightarrow> verify_session ss r = ss t"
  by (simp add: verify_session_def startswith_def)

lemma verify_session_Some:
  assumes "verify_session ss r = Some s"
  shows "\<exists>t. authorization r = Some (''Bearer '' @ t) \<and> ss t = Some s"
proof -
  from assms obtain h where h: "authorization r = Some h" "startswith h ''Bearer ''"
    "ss (drop 7 h) = Some s"
    by (auto simp: verify_session_def split: option.splits if_splits)
  from bearer_split [OF h(2)] h(1) have "authorization r = Some (''Bearer '' @ drop 7 h)"
    by simp
  with h(3) show ?thesis
    by blast
qed

lemma logout_absent:
  "verify_session ss r = None \<Longrightarrow>
   logout ss r = (ss, Inr (SuccessMessage True ''Logged out successfully''))"
  by (simp add: logout_def)

lemma logout_present:
  "sessions_wf ss \<Longrightarrow> authorization r = Some (''Bearer '' @ t) \<Longrightarrow> ss t = Some s \<Longrightarrow>
   logout ss r = (ss(t := None), Inr (SuccessMessage True ''Logged out successfully''))"
  by (simp add: logout_def sessions_wf_def verify_session_bearer)

text \<open>The store of a fresh process is well formed, and both writers keep it so.\<close>

lemma sessions_wf_empty: "sessions_wf Map.empty"
  by (simp add: sessions_wf_def)

lemma verify_login_wf:
  "sessions_wf ss \<Longrightarrow> sessions_wf (fst (verify_login lib env cfg ks ss ct token created))"
  by (auto simp: verify_login_def sessions_wf_def split: sum.splits)

lemma logout_wf: "sessions_wf ss \<Longrightarrow> sessions_wf (fst (logout ss r))"
  by (auto simp: logout_def sessions_wf_def split: option.splits)

text \<open>
  \<^bold>\<open>C7.\<close> In a store where every record sits under its own token, \<^verbatim>\<open>logout\<close> always
  returns \<^verbatim>\<open>{"success": True, "message": "Logged out successfully"}\<close> and never raises.
  When the header is \<^verbatim>\<open>Bearer t\<close> and \<open>t\<close> names a session, the store afterwards is the
  store without \<open>t\<close>. When the header is absent, is not of that form, or names no
  session, the store is unchanged. In every case the entry of a token other than the one
  in the header is what it was.
\<close>

theorem logout_removes_named_session_only:
  assumes "sessions_wf ss"
  shows "snd (logout ss r) = Inr (SuccessMessage True ''Logged out successfully'') \<and>
    (\<forall>t. authorization r = Some (''Bearer '' @ t) \<and> ss t \<noteq> None
        \<longrightarrow> fst (logout ss r) = ss(t := None)) \<and>
    ((\<forall>t. authorization r = Some (''Bearer '' @ t) \<longrightarrow> ss t = None)
        \<longrightarrow> fst (logout ss r) = ss) \<and>
    (\<forall>t. authorization r \<noteq> Some (''Bearer '' @ t) \<longrightarrow> fst (logout ss r) t = ss t)"
proof (cases "verify_session ss r")
  case None
  then have out: "logout ss r = (ss, Inr (SuccessMessage True ''Logged out successfully''))"
    by (rule logout_absent)
  have "ss t = None" if "authorization r = Some (''Bearer '' @ t)" for t
    using None that by (simp add: verify_session_bearer)
  with out show ?thesis
    by auto
next
  case (Some s)
  then obtain t where t: "authorization r = Some (''Bearer '' @ t)" "ss t = Some s"
    by (auto dest: verify_session_Some)
  with assms
  have "logout ss r = (ss(t := None), Inr (SuccessMessage True ''Logged out successfully''))"
    by (simp add: logout_present)
  with t show ?thesis
    by auto
qed

theorem logout_removes_named_session_only_witness:
  "sessions_wf two_sessions \<and>
   snd (logout two_sessions (bearer (Some ''Bearer aa'')))
     = Inr (SuccessMessage True ''Logged out successfully'') \<and>
   fst (logout two_sessions (bearer (Some ''Bearer aa''))) = two_sessions(''aa'' := None) \<and>
   fst (logout two_sessions (bearer (Some ''Bearer aa''))) ''bb'' = two_sessions ''bb'' \<and>
   snd (logout two_sessions (bearer None))
     = Inr (SuccessMessage True ''Logged out successfully'') \<and>
   fst (logout two_sessions (bearer None)) = two_sessions"
proof -
  have wf: "sessions_wf two_sessions"
    by (simp add: sessions_wf_def two_sessions_def)
  have a: "authorization (bearer (Some ''Bearer aa'')) = Some (''Bearer '' @ ''aa'')"
    by (simp add: bearer_def)
  have b: "two_sessions ''aa'' \<noteq> None"
    by (simp add: two_sessions_def)
  have c: "authorization (bearer (Some ''Bearer aa'')) \<noteq> Some (''Bearer '' @ ''bb'')"
    by (simp add: bearer_def)
  have d: "\<forall>t. authorization (bearer None) = Some (''Bearer '' @ t) \<longrightarrow> two_sessions t = None"
    by (simp add: bearer_def)
  from logout_removes_named_session_only [OF wf, of "bearer (Some ''Bearer aa'')"] a b c
  have "snd (logout two_sessions (bearer (Some ''Bearer aa'')))
          = Inr (SuccessMessage True ''Logged out successfully'') \<and>
        fst (logout two_sessions (bearer (Some ''Bearer aa''))) = two_sessions(''aa'' := None) \<and>
        fst (logout two_sessions (bearer (Some ''Bearer aa''))) ''bb'' = two_sessions ''bb''"
    by blast
  moreover from logout_removes_named_session_only [OF wf, of "bearer None"] d
  have "snd (logout two_sessions (bearer None))
          = Inr (SuccessMessage True ''Logged out successfully'') \<and>
        fst (logout two_sessions (bearer None)) = two_sessions"
    by blast
  ultimately show ?thesis
    using wf by blast
qed

section \<open>Properties of the key lifecycle\<close>

lemmas toy_eval = toy_def toy_generate_def toy_load_pem_def toy_b64decode_def toy_decrypt_def
  toy_decode_utf8_def toy_encrypt_def strokes_def is_ascii_def no_keys_def
  env_serverless_def env_persistent_def env_private_only_def IS_SERVERLESS_def
  eval_nat_numeral

lemmas key_eval = generate_rsa_key_pair_def load_private_key_def decrypt_password_def
  decrypt_error_def ensure_keys_exist_def adopt_environment_def get_public_key_pem_def
  verify_login_def verify_password_def Let_def

lemma toy_library_ok: "library_ok toy"
  by (auto simp: library_ok_def toy_def toy_load_pem_def toy_b64decode_def toy_decrypt_def
      toy_encrypt_def strokes_def split: if_splits)

text \<open>
  \<^bold>\<open>C3\<close>, as stated, fails in the serverless mode. The process holds no key, the
  environment sets \<^verbatim>\<open>VERCEL=1\<close> and supplies both PEM texts, and the private one parses
  (to key 3); \<^verbatim>\<open>ensure_keys_exist\<close> still calls the generator, and the pair held
  afterwards is the generated one (key 5).
\<close>

theorem serverless_generates_despite_environment:
  "IS_SERVERLESS env_serverless \<and>
   load_pem_private_key toy ''PRIVATE KEY III'' = Inr 3 \<and>
   ensure_keys_exist toy env_serverless 2048 5 Written no_keys
     = (no_keys\<lparr>in_memory_private_key := Some 5,
                in_memory_public_key_pem := Some ''PUBLIC KEY IIIII''\<rparr>, Generated)"
  by (simp add: key_eval toy_eval)

text \<open>
  \<^bold>\<open>C3\<close>, amended. (a) When a private key and a public PEM are held in memory,
  \<^verbatim>\<open>ensure_keys_exist\<close> changes nothing, in every mode. (b) Otherwise, in the persistent
  mode, when both environment variables are set and the private one parses, the parsed
  key and the public text are adopted and the generator is not called. (c) In the
  persistent mode the generator is called exactly when no private key is held in memory
  and the environment does not supply a pair that parses. (d) In the serverless mode
  the generator is called exactly when no complete pair is held in memory, whatever the
  environment supplies, and when it returns a key the pair held afterwards is the
  generated one.
\<close>

theorem ensure_keys_resolution:
  "(in_memory_private_key ks \<noteq> None \<and> truthy (in_memory_public_key_pem ks)
      \<longrightarrow> ensure_keys_exist lib env key_size rnd fs ks = (ks, FoundInMemory)) \<and>
   (\<not> (in_memory_private_key ks \<noteq> None \<and> truthy (in_memory_public_key_pem ks)) \<and>
    \<not> IS_SERVERLESS env \<and>
    env ''RSA_PRIVATE_KEY'' = Some a \<and> a \<noteq> [] \<and> env ''RSA_PUBLIC_KEY'' = Some b \<and> b \<noteq> [] \<and>
    load_pem_private_key lib a = Inr k
      \<longrightarrow> ensure_keys_exist lib env key_size rnd fs ks
            = (ks\<lparr>in_memory_private_key := Some k, in_memory_public_key_pem := Some b\<rparr>, Found)) \<and>
   (\<not> IS_SERVERLESS env \<longrightarrow>
      generation_attempted (snd (ensure_keys_exist lib env key_size rnd fs ks))
        = (in_memory_private_key ks = None \<and>
           \<not> (\<exists>a b k. env ''RSA_PRIVATE_KEY'' = Some a \<and> a \<noteq> [] \<and>
                env ''RSA_PUBLIC_KEY'' = Some b \<and> b \<noteq> [] \<and> load_pem_private_key lib a = Inr k))) \<and>
   (IS_SERVERLESS env \<longrightarrow>
      generation_attempted (snd (ensure_keys_exist lib env key_size rnd fs ks))
        = (\<not> (in_memory_private_key ks \<noteq> None \<and> truthy (in_memory_public_key_pem ks)))) \<and>
   (IS_SERVERLESS env \<and>
    \<not> (in_memory_private_key ks \<noteq> None \<and> truthy (in_memory_public_key_pem ks)) \<and>
    generate_private_key lib key_size rnd = Inr k'
      \<longrightarrow> snd (ensure_keys_exist lib env key_size rnd fs ks) = Generated \<and>
          in_memory_private_key (fst (ensure_keys_exist lib env key_size rnd fs ks)) = Some k' \<and>
          in_memory_public_key_pem (fst (ensure_keys_exist lib env key_size rnd fs ks))
            = Some (public_bytes lib k'))"
proof (intro conjI impI)
  assume "in_memory_private_key ks \<noteq> None \<and> truthy (in_memory_public_key_pem ks)"
  then show "ensure_keys_exist lib env key_size rnd fs ks = (ks, FoundInMemory)"
    by (simp add: ensure_keys_exist_def)
next
  assume "\<not> (in_memory_private_key ks \<noteq> None \<and> truthy (in_memory_public_key_pem ks)) \<and>
    \<not> IS_SERVERLESS env \<and>
    env ''RSA_PRIVATE_KEY'' = Some a \<and> a \<noteq> [] \<and> env ''RSA_PUBLIC_KEY'' = Some b \<and> b \<noteq> [] \<and>
    load_pem_private_key lib a = Inr k"
  then show "ensure_keys_exist lib env key_size rnd fs ks
      = (ks\<lparr>in_memory_private_key := Some k, in_memory_public_key_pem := Some b\<rparr>, Found)"
    by (auto simp: ensure_keys_exist_def adopt_environment_def Let_def)
next
  assume "\<not> IS_SERVERLESS env"
  then show "generation_attempted (snd (ensure_keys_exist lib env key_size rnd fs ks))
      = (in_memory_private_key ks = None \<and>
         \<not> (\<exists>a b k. env ''RSA_PRIVATE_KEY'' = Some a \<and> a \<noteq> [] \<and>
              env ''RSA_PUBLIC_KEY'' = Some b \<and> b \<noteq> [] \<and> load_pem_private_key lib a = Inr k))"
    by (cases "env ''RSA_PRIVATE_KEY''"; cases "env ''RSA_PUBLIC_KEY''")
       (auto simp: ensure_keys_exist_def adopt_environment_def Let_def
          split: sum.splits prod.splits)
next
  assume "IS_SERVERLESS env"
  then show "generation_attempted (snd (ensure_keys_exist lib env key_size rnd fs ks))
      = (\<not> (in_memory_private_key ks \<noteq> None \<and> truthy (in_memory_public_key_pem ks)))"
    by (auto simp: ensure_keys_exist_def Let_def split: sum.splits prod.splits)
next
  assume h: "IS_SERVERLESS env \<and>
    \<not> (in_memory_private_key ks \<noteq> None \<and> truthy (in_memory_public_key_pem ks)) \<and>
    generate_private_key lib key_size rnd = Inr k'"
  then show "snd (ensure_keys_exist lib env key_size rnd fs ks) = Generated"
    by (auto simp: ensure_keys_exist_def generate_rsa_key_pair_def Let_def)
  from h show "in_memory_private_key (fst (ensure_keys_exist lib env key_size rnd fs ks)) = Some k'"
    by (auto simp: ensure_keys_exist_def generate_rsa_key_pair_def Let_def)
  from h show "in_memory_public_key_pem (fst (ensure_keys_exist lib env key_size rnd fs ks))
      = Some (public_bytes lib k')"
    by (auto simp: ensure_keys_exist_def generate_rsa_key_pair_def Let_def)
qed

theorem ensure_keys_resolution_witness:
  "ensure_keys_exist toy env_persistent 2048 5 Written key3_in_memory
     = (key3_in_memory, FoundInMemory) \<and>
   \<not> IS_SERVERLESS env_persistent \<and>
   ensure_keys_exist toy env_persistent 2048 5 Written no_keys
     = (no_keys\<lparr>in_memory_private_key := Some 3,
                in_memory_public_key_pem := Some ''PUBLIC KEY III''\<rparr>, Found) \<and>
   \<not> IS_SERVERLESS env_private_only \<and>
   generation_attempted (snd (ensure_keys_exist toy env_private_only 2048 5 Written no_keys)) \<and>
   IS_SERVERLESS env_serverless \<and>
   snd (ensure_keys_exist toy env_serverless 2048 5 Written no_keys) = Generated"
proof -
  have a: "in_memory_private_key key3_in_memory \<noteq> None \<and>
           truthy (in_memory_public_key_pem key3_in_memory)"
    by (simp add: key3_in_memory_def no_keys_def)
  have b: "\<not> (in_memory_private_key no_keys \<noteq> None \<and> truthy (in_memory_public_key_pem no_keys))"
    by (simp add: no_keys_def)
  have c: "\<not> IS_SERVERLESS env_persistent \<and>
           env_persistent ''RSA_PRIVATE_KEY'' = Some ''PRIVATE KEY III'' \<and> ''PRIVATE KEY III'' \<noteq> [] \<and>
           env_persistent ''RSA_PUBLIC_KEY'' = Some ''PUBLIC KEY III'' \<and> ''PUBLIC KEY III'' \<noteq> [] \<and>
           load_pem_private_key toy ''PRIVATE KEY III'' = Inr 3"
    by (simp add: toy_eval)
  have d: "\<not> IS_SERVERLESS env_private_only"
    by (simp add: toy_eval)
  have e: "in_memory_private_key no_keys = None \<and>
           \<not> (\<exists>a b k. env_private_only ''RSA_PRIVATE_KEY'' = Some a \<and> a \<noteq> [] \<and>
                env_private_only ''RSA_PUBLIC_KEY'' = Some b \<and> b \<noteq> [] \<and>
                load_pem_private_key toy a = Inr k)"
    by (simp add: toy_eval)
  have f: "IS_SERVERLESS env_serverless \<and> generate_private_key toy 2048 5 = Inr 5"
    by (simp add: toy_eval)
  note inst = ensure_keys_resolution [where lib = toy and key_size = 2048 and rnd = 5
      and fs = Written]
  from inst [where ks = key3_in_memory and env = env_persistent] a
  have 1: "ensure_keys_exist toy env_persistent 2048 5 Written key3_in_memory
             = (key3_in_memory, FoundInMemory)"
    by blast
  from inst [where ks = no_keys and env = env_persistent and a = "''PRIVATE KEY III''"
      and b = "''PUBLIC KEY III''" and k = 3] b c
  have 2: "ensure_keys_exist toy env_persistent 2048 5 Written no_keys
             = (no_keys\<lparr>in_memory_private_key := Some 3,
                        in_memory_public_key_pem := Some ''PUBLIC KEY III''\<rparr>, Found)"
    by blast
  from inst [where ks = no_keys and env = env_private_only] d e
  have 3: "generation_attempted (snd (ensure_keys_exist toy env_private_only 2048 5 Written no_keys))"
    by blast
  from inst [where ks = no_keys and env = env_serverless and k' = 5] b f
  have 4: "snd (ensure_keys_exist toy env_serverless 2048 5 Written no_keys) = Generated"
    by blast
  from 1 2 3 4 c d f show ?thesis
    by blast
qed

section \<open>Properties of the credential channel\<close>

subsection \<open>What a failed decryption tells the client\<close>

text \<open>
  \<^bold>\<open>C4\<close>, as stated, fails. The process holds key 3. A ciphertext that is not base64,
  a base64 ciphertext that the key does not decrypt, and one whose plaintext is not
  UTF-8 are answered with three different details, each ending in the text of the
  exception raised inside; and when no key can be found at all, the detail carries the
  text of the \<^verbatim>\<open>FileNotFoundError\<close> of \<^verbatim>\<open>load_private_key\<close>.
\<close>

theorem login_error_reveals_failing_step:
  "verify_login toy Map.empty cfgA key3_in_memory Map.empty ''III|admin123'' ''tok'' ''t0''
     = (Map.empty, HTTPException 400
          ''Authentication failed: Failed to decrypt password: Incorrect padding'') \<and>
   verify_login toy Map.empty cfgA key3_in_memory Map.empty ''IIII|admin123='' ''tok'' ''t0''
     = (Map.empty, HTTPException 400
          ''Authentication failed: Failed to decrypt password: Decryption failed'') \<and>
   verify_login toy Map.empty cfgA key3_in_memory Map.empty [CHR ''I'', CHR ''I'', CHR ''I'',
        CHR ''|'', CHR 0xFF, CHR ''=''] ''tok'' ''t0''
     = (Map.empty, HTTPException 400
          ''Authentication failed: Failed to decrypt password: utf-8 codec cannot decode byte: invalid start byte'') \<and>
   verify_login toy Map.empty cfgA no_keys Map.empty ''III|admin123='' ''tok'' ''t0''
     = (Map.empty, HTTPException 400
          ''Authentication failed: Failed to decrypt password: Private key not found. Please generate keys first or set RSA_PRIVATE_KEY environment variable.'')"
  by (simp add: key_eval toy_eval key3_in_memory_def cfgA_def)

text \<open>
  \<^bold>\<open>C4\<close>, amended. Whichever step of the decryption raises (finding the private key,
  the base64 decoding, the RSA decryption, the UTF-8 decoding), the client is answered
  with status 400 and the detail \<^verbatim>\<open>Authentication failed: Failed to decrypt password: \<close>
  followed by the text of the exception that the step raised; no session is created.
\<close>

theorem login_error_carries_exception_text:
  "(load_private_key lib env ks = Inl e \<longrightarrow>
      verify_login lib env cfg ks ss ct token created
        = (ss, HTTPException 400
             (''Authentication failed: Failed to decrypt password: '' @ str_exc e))) \<and>
   (load_private_key lib env ks = Inr k \<and> b64decode lib ct = Inl e \<longrightarrow>
      verify_login lib env cfg ks ss ct token created
        = (ss, HTTPException 400
             (''Authentication failed: Failed to decrypt password: '' @ str_exc e))) \<and>
   (load_private_key lib env ks = Inr k \<and> b64decode lib ct = Inr bs \<and>
    decrypt lib k bs = Inl e \<longrightarrow>
      verify_login lib env cfg ks ss ct token created
        = (ss, HTTPException 400
             (''Authentication failed: Failed to decrypt password: '' @ str_exc e))) \<and>
   (load_private_key lib env ks = Inr k \<and> b64decode lib ct = Inr bs \<and>
    decrypt lib k bs = Inr m \<and> decode_utf8 lib m = Inl e \<longrightarrow>
      verify_login lib env cfg ks ss ct token created
        = (ss, HTTPException 400
             (''Authentication failed: Failed to decrypt password: '' @ str_exc e)))"
  by (simp add: verify_login_def decrypt_password_def decrypt_error_def)

theorem login_error_carries_exception_text_witness:
  "load_private_key toy Map.empty no_keys
     = Inl (FileNotFoundError ''Private key not found. Please generate keys first or set RSA_PRIVATE_KEY environment variable.'') \<and>
   verify_login toy Map.empty cfgA no_keys Map.empty ''III|secret='' ''tok'' ''t0''
     = (Map.empty, HTTPException 400
         (''Authentication failed: Failed to decrypt password: ''
            @ str_exc (FileNotFoundError ''Private key not found. Please generate keys first or set RSA_PRIVATE_KEY environment variable.''))) \<and>
   load_private_key toy Map.empty key3_in_memory = Inr 3 \<and>
   b64decode toy ''III|secret'' = Inl (OtherError ''Incorrect padding'') \<and>
   verify_login toy Map.empty cfgA key3_in_memory Map.empty ''III|secret'' ''tok'' ''t0''
     = (Map.empty, HTTPException 400
         (''Authentication failed: Failed to decrypt password: ''
            @ str_exc (OtherError ''Incorrect padding''))) \<and>
   b64decode toy ''I|secret='' = Inr ''I|secret'' \<and>
   decrypt toy 3 ''I|secret'' = Inl (ValueError ''Decryption failed'') \<and>
   verify_login toy Map.empty cfgA key3_in_memory Map.empty ''I|secret='' ''tok'' ''t0''
     = (Map.empty, HTTPException 400
         (''Authentication failed: Failed to decrypt password: ''
            @ str_exc (ValueError ''Decryption failed''))) \<and>
   b64decode toy [CHR ''I'', CHR ''I'', CHR ''I'', CHR ''|'', CHR 0xFF, CHR ''='']
     = Inr [CHR ''I'', CHR ''I'', CHR ''I'', CHR ''|'', CHR 0xFF] \<and>
   decrypt toy 3 [CHR ''I'', CHR ''I'', CHR ''I'', CHR ''|'', CHR 0xFF] = Inr [CHR 0xFF] \<and>
   decode_utf8 toy [CHR 0xFF]
     = Inl (OtherError ''utf-8 codec cannot decode byte: invalid start byte'') \<and>
   verify_login toy Map.empty cfgA key3_in_memory Map.empty
       [CHR ''I'', CHR ''I'', CHR ''I'', CHR ''|'', CHR 0xFF, CHR ''=''] ''tok'' ''t0''
     = (Map.empty, HTTPException 400
         (''Authentication failed: Failed to decrypt password: ''
            @ str_exc (OtherError ''utf-8 codec cannot decode byte: invalid start byte'')))"
proof -
  have nokey: "load_private_key toy Map.empty no_keys
     = Inl (FileNotFoundError ''Private key not found. Please generate keys first or set RSA_PRIVATE_KEY environment variable.'')"
    by (simp add: key_eval toy_eval)
  have key: "load_private_key toy Map.empty key3_in_memory = Inr 3"
    by (simp add: key_eval toy_eval key3_in_memory_def)
  have a: "b64decode toy ''III|secret'' = Inl (OtherError ''Incorrect padding'')"
    by (simp add: toy_eval)
  have b: "b64decode toy ''I|secret='' = Inr ''I|secret''"
    by (simp add: toy_eval)
  have c: "decrypt toy 3 ''I|secret'' = Inl (ValueError ''Decryption failed'')"
    by (simp add: toy_eval)
  have d: "b64decode toy [CHR ''I'', CHR ''I'', CHR ''I'', CHR ''|'', CHR 0xFF, CHR ''='']
     = Inr [CHR ''I'', CHR ''I'', CHR ''I'', CHR ''|'', CHR 0xFF]"
    by (simp add: toy_eval)
  have e: "decrypt toy 3 [CHR ''I'', CHR ''I'', CHR ''I'', CHR ''|'', CHR 0xFF] = Inr [CHR 0xFF]"
    by (simp add: toy_eval)
  have f: "decode_utf8 toy [CHR 0xFF]
     = Inl (OtherError ''utf-8 codec cannot decode byte: invalid start byte'')"
    by (simp add: toy_eval)
  note inst = login_error_carries_exception_text [where lib = toy and env = Map.empty
      and cfg = cfgA and ss = Map.empty and token = "''tok''" and created = "''t0''"]
  from inst [where ks = no_keys and ct = "''III|secret=''"
      and e = "FileNotFoundError ''Private key not found. Please generate keys first or set RSA_PRIVATE_KEY environment variable.''"]
    nokey
  have 0: "verify_login toy Map.empty cfgA no_keys Map.empty ''III|secret='' ''tok'' ''t0''
     = (Map.empty, HTTPException 400
         (''Authentication failed: Failed to decrypt password: ''
            @ str_exc (FileNotFoundError ''Private key not found. Please generate keys first or set RSA_PRIVATE_KEY environment variable.'')))"
    by blast
  from inst [where ks = key3_in_memory and k = 3 and ct = "''III|secret''"
      and e = "OtherError ''Incorrect padding''"] key a
  have 1: "verify_login toy Map.empty cfgA key3_in_memory Map.empty ''III|secret'' ''tok'' ''t0''
     = (Map.empty, HTTPException 400
         (''Authentication failed: Failed to decrypt password: ''
            @ str_exc (OtherError ''Incorrect padding'')))"
    by blast
  from inst [where ks = key3_in_memory and k = 3 and ct = "''I|secret=''"
      and bs = "''I|secret''" and e = "ValueError ''Decryption failed''"] key b c
  have 2: "verify_login toy Map.empty cfgA key3_in_memory Map.empty ''I|secret='' ''tok'' ''t0''
     = (Map.empty, HTTPException 400
         (''Authentication failed: Failed to decrypt password: ''
            @ str_exc (ValueError ''Decryption failed'')))"
    by blast
  from inst [where ks = key3_in_memory and k = 3
      and ct = "[CHR ''I'', CHR ''I'', CHR ''I'', CHR ''|'', CHR 0xFF, CHR ''='']"
      and bs = "[CHR ''I'', CHR ''I'', CHR ''I'', CHR ''|'', CHR 0xFF]" and m = "[CHR 0xFF]"
      and e = "OtherError ''utf-8 codec cannot decode byte: invalid start byte''"] key d e f
  have 3: "verify_login toy Map.empty cfgA key3_in_memory Map.empty
       [CHR ''I'', CHR ''I'', CHR ''I'', CHR ''|'', CHR 0xFF, CHR ''=''] ''tok'' ''t0''
     = (Map.empty, HTTPException 400
         (''Authentication failed: Failed to decrypt password: ''
            @ str_exc (OtherError ''utf-8 codec cannot decode byte: invalid start byte'')))"
    by blast
  from nokey key a b c d e f 0 1 2 3 show ?thesis
    by blast
qed

subsection \<open>The round trip\<close>

text \<open>
  After \<^verbatim>\<open>generate_rsa_key_pair\<close> has returned a pair, \<^verbatim>\<open>load_private_key\<close> finds the new
  private key if the new pair went to memory, or if it went to the files and neither
  memory nor the environment comes first.
\<close>

lemma load_after_generate:
  assumes "\<forall>k. load_pem_private_key lib (private_bytes lib k) = Inr k"
    and "generate_rsa_key_pair lib env key_size rnd fs ks = (ks', Inr (k, public_pem))"
    and "IS_SERVERLESS env \<or> fs \<noteq> Written \<or>
         (in_memory_private_key ks = None \<and> \<not> truthy (env ''RSA_PRIVATE_KEY''))"
  shows "load_private_key lib env ks' = Inr k \<and> public_pem = public_bytes lib k"
  using assms
  by (auto simp: generate_rsa_key_pair_def load_private_key_def Let_def
      split: sum.splits fs_answer.splits if_splits)

text \<open>
  \<^bold>\<open>C6\<close>, as stated, fails in a persistent deployment that sets \<^verbatim>\<open>RSA_PRIVATE_KEY\<close>
  (here to key 3) but not \<^verbatim>\<open>RSA_PUBLIC_KEY\<close>, and holds no key in memory. At startup
  \<^verbatim>\<open>ensure_keys_exist\<close> generates a pair (key 5), which goes to the two files only.
  \<^verbatim>\<open>get_public_key_pem\<close> then serves the new public key, and the password encrypted
  under it is decrypted with the key of the environment, which \<^verbatim>\<open>load_private_key\<close>
  finds before the file.
\<close>

theorem round_trip_fails_when_environment_key_comes_first:
  "library_ok toy \<and>
   ensure_keys_exist toy env_private_only 2048 5 Written no_keys
     = (no_keys\<lparr>private_key_file := Some ''PRIVATE KEY IIIII'',
                public_key_file := Some ''PUBLIC KEY IIIII''\<rparr>, Generated) \<and>
   generate_rsa_key_pair toy env_private_only 2048 5 Written no_keys
     = (no_keys\<lparr>private_key_file := Some ''PRIVATE KEY IIIII'',
                public_key_file := Some ''PUBLIC KEY IIIII''\<rparr>, Inr (5, ''PUBLIC KEY IIIII'')) \<and>
   get_public_key_pem toy env_private_only
      (no_keys\<lparr>private_key_file := Some ''PRIVATE KEY IIIII'',
                public_key_file := Some ''PUBLIC KEY IIIII''\<rparr>)
     = Inr ''PUBLIC KEY IIIII'' \<and>
   decode_utf8 toy (encode_utf8 toy ''admin123'') = Inr ''admin123'' \<and>
   encrypt toy ''PUBLIC KEY IIIII'' 0 (encode_utf8 toy ''admin123'') = Some ''IIIII|admin123'' \<and>
   decrypt_password toy env_private_only
      (no_keys\<lparr>private_key_file := Some ''PRIVATE KEY IIIII'',
                public_key_file := Some ''PUBLIC KEY IIIII''\<rparr>)
      (b64encode toy ''IIIII|admin123'')
     = Inl (ValueError ''Failed to decrypt password: Decryption failed'')"
  by (simp add: toy_library_ok) (simp add: key_eval toy_eval)

text \<open>
  \<^bold>\<open>C6\<close>, amended. Let the library do what is expected of it (\<open>library_ok\<close>), let
  \<^verbatim>\<open>generate_rsa_key_pair\<close> return a pair, and let the new private key be the one that
  \<^verbatim>\<open>load_private_key\<close> resolves: the deployment is serverless, or the key files could
  not be written, or no private key is held in memory and \<^verbatim>\<open>RSA_PRIVATE_KEY\<close> is not
  set. Then for every password \<open>P\<close> that is valid UTF-8 and that the public key of the
  pair encrypts (it is within the size bound), \<^verbatim>\<open>decrypt_password\<close> of the base64 text
  of the ciphertext returns \<open>P\<close>.
\<close>

theorem round_trip:
  assumes lib: "library_ok lib"
    and gen: "generate_rsa_key_pair lib env key_size rnd fs ks = (ks', Inr (k, public_pem))"
    and res: "IS_SERVERLESS env \<or> fs \<noteq> Written \<or>
              (in_memory_private_key ks = None \<and> \<not> truthy (env ''RSA_PRIVATE_KEY''))"
    and utf8: "decode_utf8 lib (encode_utf8 lib P) = Inr P"
    and enc: "encrypt lib public_pem rnd' (encode_utf8 lib P) = Some c"
  shows "decrypt_password lib env ks' (b64encode lib c) = Inr P"
proof -
  from lib have pem: "\<forall>k. load_pem_private_key lib (private_bytes lib k) = Inr k"
    and b64: "b64decode lib (b64encode lib c) = Inr c"
    and rsa: "\<And>k rnd m c. encrypt lib (public_bytes lib k) rnd m = Some c
                \<Longrightarrow> decrypt lib k c = Inr m"
    by (auto simp: library_ok_def)
  from load_after_generate [OF pem gen res]
  have key: "load_private_key lib env ks' = Inr k" and pub: "public_pem = public_bytes lib k"
    by simp_all
  from enc pub have "decrypt lib k c = Inr (encode_utf8 lib P)"
    by (auto intro: rsa)
  with key b64 utf8 show ?thesis
    by (simp add: decrypt_password_def)
qed

theorem round_trip_witness:
  "library_ok toy \<and>
   generate_rsa_key_pair toy Map.empty 2048 5 Written no_keys
     = (no_keys\<lparr>private_key_file := Some ''PRIVATE KEY IIIII'',
                public_key_file := Some ''PUBLIC KEY IIIII''\<rparr>, Inr (5, ''PUBLIC KEY IIIII'')) \<and>
   in_memory_private_key no_keys = None \<and> \<not> truthy (Map.empty ''RSA_PRIVATE_KEY'') \<and>
   decode_utf8 toy (encode_utf8 toy ''admin123'') = Inr ''admin123'' \<and>
   encrypt toy ''PUBLIC KEY IIIII'' 0 (encode_utf8 toy ''admin123'') = Some ''IIIII|admin123'' \<and>
   decrypt_password toy Map.empty
      (no_keys\<lparr>private_key_file := Some ''PRIVATE KEY IIIII'',
                public_key_file := Some ''PUBLIC KEY IIIII''\<rparr>)
      (b64encode toy ''IIIII|admin123'')
     = Inr ''admin123''"
proof -
  have gen: "generate_rsa_key_pair toy Map.empty 2048 5 Written no_keys
     = (no_keys\<lparr>private_key_file := Some ''PRIVATE KEY IIIII'',
                public_key_file := Some ''PUBLIC KEY IIIII''\<rparr>, Inr (5, ''PUBLIC KEY IIIII''))"
    by (simp add: key_eval toy_eval)
  have res: "in_memory_private_key no_keys = None \<and> \<not> truthy (Map.empty ''RSA_PRIVATE_KEY'')"
    by (simp add: no_keys_def)
  then have res': "IS_SERVERLESS Map.empty \<or> Written \<noteq> Written \<or>
      (in_memory_private_key no_keys = None \<and> \<not> truthy (Map.empty ''RSA_PRIVATE_KEY''))"
    by blast
  have utf8: "decode_utf8 toy (encode_utf8 toy ''admin123'') = Inr ''admin123''"
    by (simp add: toy_eval)
  have enc: "encrypt toy ''PUBLIC KEY IIIII'' 0 (encode_utf8 toy ''admin123'')
      = Some ''IIIII|admin123''"
    by (simp add: toy_eval)
  from round_trip [OF toy_library_ok gen res' utf8 enc] toy_library_ok gen res utf8 enc
  show ?thesis
    by blast
qed

end
